theory Spec2Isabelle
  imports Complex_Main
begin

section \<open>Python values, exceptions and the HTTP library\<close>

text \<open>
  The class \<open>Request\<close> of \<open>async_request.py\<close> is a thin layer over \<open>aiohttp\<close> and
  \<open>asyncio\<close>. Python values that flow through it (query parameters, bodies, decoded
  JSON, keyword options) are values of \<open>pyval\<close>; strings are ASCII character lists.
  An exception is its class name with its arguments.
\<close>

datatype pyval =
    PNone
  | PBool bool
  | PInt int
  | PStr string
  | PList "pyval list"
  | PDict "(string \<times> pyval) list"

datatype exn = Exn (exn_class: string) (exn_args: "pyval list")

text \<open>\<open>aiohttp.ClientTimeout(total=...)\<close>: the value is stored and handed on, never computed with.\<close>

datatype ClientTimeout = ClientTimeout (total: real)

type_synonym headers = "(string \<times> string) list"
type_synonym kwargs = "(string \<times> pyval) list"

text \<open>Which method of the \<open>aiohttp\<close> session was called: \<open>session.get\<close>, \<open>session.post\<close>, ...\<close>

datatype verb = GET | POST | PUT | PATCH | DELETE

text \<open>
  One network operation, as the session method receives it. A field of type \<open>pyval option\<close>
  is \<open>None\<close> when the keyword is not passed at all and \<open>Some v\<close> when it is passed with
  value \<open>v\<close> (also \<open>Some PNone\<close>, Python's \<open>None\<close>).
\<close>

record call =
  c_verb :: verb
  c_session :: nat
  c_url :: string
  c_params :: "pyval option"
  c_data :: "pyval option"
  c_json :: "pyval option"
  c_headers :: headers
  c_timeout :: ClientTimeout
  c_kwargs :: kwargs

text \<open>
  The response object: \<open>r_status\<close> is the attribute \<open>response.status\<close> (an integer),
  \<open>r_json\<close> is what \<open>await response.json()\<close> gives, the decoded body or the exception
  the library's decoder raises.
\<close>

record response =
  r_status :: int
  r_body :: string
  r_json :: "exn + pyval"

text \<open>
  The network and the library are a parameter: the answer to a network operation is a
  response, or the exception the session method raises (connection refused, timeout, an
  option the library does not know).
\<close>

type_synonym transport = "call \<Rightarrow> exn + response"

section \<open>Sessions and the observable state\<close>

text \<open>
  A session is \<open>aiohttp.ClientSession(connector=TCPConnector(limit=30), timeout=...)\<close>.
  Sessions are objects with identity: the state holds every session ever constructed, and
  a session is referred to by its position there. The state also records every network
  operation issued and counts the calls of \<open>response.json()\<close>.
\<close>

record session =
  s_timeout :: ClientTimeout
  s_limit :: nat
  s_closed :: bool

record world =
  sessions :: "session list"
  calls :: "call list"
  decodes :: nat

type_synonym 'a result = "(exn + 'a) \<times> world"

definition then_with :: "(world \<Rightarrow> 'a result) \<Rightarrow> ('a \<Rightarrow> world \<Rightarrow> 'b result) \<Rightarrow> world \<Rightarrow> 'b result" where
  "then_with m f w = (case m w of (Inl e, w') \<Rightarrow> (Inl e, w') | (Inr x, w') \<Rightarrow> f x w')"

text \<open>\<open>aiohttp.ClientSession(connector=connector, timeout=timeout)\<close>\<close>

definition new_session :: "ClientTimeout \<Rightarrow> nat \<Rightarrow> world \<Rightarrow> nat \<times> world" where
  "new_session timeout limit w =
     (length (sessions w),
      w\<lparr>sessions := sessions w @ [\<lparr>s_timeout = timeout, s_limit = limit, s_closed = False\<rparr>]\<rparr>)"

text \<open>\<open>await session.close()\<close>\<close>

definition session_close :: "nat \<Rightarrow> world \<Rightarrow> world" where
  "session_close s w =
     (if s < length (sessions w)
      then w\<lparr>sessions := (sessions w)[s := (sessions w ! s)\<lparr>s_closed := True\<rparr>]\<rparr>
      else w)"

text \<open>Entering \<open>async with session.<verb>(...) as response\<close>: the operation goes out.\<close>

definition session_send :: "transport \<Rightarrow> call \<Rightarrow> world \<Rightarrow> response result" where
  "session_send srv c w = (srv c, w\<lparr>calls := calls w @ [c]\<rparr>)"

text \<open>\<open>await response.json()\<close>\<close>

definition response_json :: "response \<Rightarrow> world \<Rightarrow> pyval result" where
  "response_json resp w = (r_json resp, w\<lparr>decodes := Suc (decodes w)\<rparr>)"

text \<open>
  \<open>await v\<close> on a plain value: integers, strings, lists and the other values of \<open>pyval\<close>
  are not awaitable, and Python raises \<open>TypeError\<close> (object cannot be used in an await
  expression).
\<close>

definition py_await :: "pyval \<Rightarrow> world \<Rightarrow> pyval result" where
  "py_await v w = (Inl (Exn ''TypeError'' [PStr ''object cannot be used in await expression'']), w)"

section \<open>The class Request\<close>

record Request =
  header :: headers
  request_timeout :: ClientTimeout
  session_timeout :: ClientTimeout

text \<open>\<open>__init__\<close>\<close>

definition Request_init :: Request where
  "Request_init =
     \<lparr>header = [(''Connection'', ''keep-alive''), (''Authorization'', ''bear your token'')],
      request_timeout = ClientTimeout (2 * 60),
      session_timeout = ClientTimeout (2 * 60)\<rparr>"

text \<open>The property \<open>_time_out\<close> and its setter (the prefix \<open>u_\<close> stands for the leading underscore).\<close>

definition u_time_out :: "Request \<Rightarrow> ClientTimeout" where
  "u_time_out self = request_timeout self"

definition u_time_out_set :: "real \<Rightarrow> Request \<Rightarrow> Request" where
  "u_time_out_set v self = self\<lparr>request_timeout := ClientTimeout v\<rparr>"

text \<open>The property \<open>_client_session\<close>: every evaluation constructs a session.\<close>

definition u_client_session :: "Request \<Rightarrow> world \<Rightarrow> nat \<times> world" where
  "u_client_session self w = new_session (u_time_out self) 30 w"

subsection \<open>The verb senders\<close>

text \<open>
  Each sender issues its operation, reads the response inside the \<open>async with\<close> block,
  and then, after the block, closes the session and returns. An exception raised
  inside the block leaves the function there: the statements after the block are not run.
\<close>

definition u_get ::
  "transport \<Rightarrow> nat \<Rightarrow> string \<Rightarrow> ClientTimeout \<Rightarrow> pyval \<Rightarrow> headers \<Rightarrow> kwargs \<Rightarrow> world \<Rightarrow> pyval result" where
  "u_get srv session url timeout params hdrs kw =
     then_with
       (then_with
          (session_send srv
             \<lparr>c_verb = GET, c_session = session, c_url = url, c_params = Some params,
              c_data = None, c_json = None, c_headers = hdrs, c_timeout = timeout,
              c_kwargs = kw\<rparr>)
          response_json)
       (\<lambda>response w. (Inr response, session_close session w))"

definition u_post ::
  "transport \<Rightarrow> nat \<Rightarrow> string \<Rightarrow> ClientTimeout \<Rightarrow> pyval \<Rightarrow> pyval \<Rightarrow> headers \<Rightarrow> kwargs \<Rightarrow> world \<Rightarrow> pyval result" where
  "u_post srv session url timeout data js hdrs kw =
     then_with
       (then_with
          (session_send srv
             \<lparr>c_verb = POST, c_session = session, c_url = url, c_params = None,
              c_data = Some data, c_json = Some js, c_headers = hdrs, c_timeout = timeout,
              c_kwargs = kw\<rparr>)
          response_json)
       (\<lambda>response w. (Inr response, session_close session w))"

definition u_put ::
  "transport \<Rightarrow> nat \<Rightarrow> string \<Rightarrow> ClientTimeout \<Rightarrow> pyval \<Rightarrow> headers \<Rightarrow> kwargs \<Rightarrow> world \<Rightarrow> pyval result" where
  "u_put srv session url timeout data hdrs kw =
     then_with
       (then_with
          (session_send srv
             \<lparr>c_verb = PUT, c_session = session, c_url = url, c_params = None,
              c_data = Some data, c_json = None, c_headers = hdrs, c_timeout = timeout,
              c_kwargs = kw\<rparr>)
          response_json)
       (\<lambda>response w. (Inr response, session_close session w))"

definition u_patch ::
  "transport \<Rightarrow> nat \<Rightarrow> string \<Rightarrow> ClientTimeout \<Rightarrow> pyval \<Rightarrow> headers \<Rightarrow> kwargs \<Rightarrow> world \<Rightarrow> pyval result" where
  "u_patch srv session url timeout data hdrs kw =
     then_with
       (then_with
          (session_send srv
             \<lparr>c_verb = PATCH, c_session = session, c_url = url, c_params = None,
              c_data = Some data, c_json = None, c_headers = hdrs, c_timeout = timeout,
              c_kwargs = kw\<rparr>)
          response_json)
       (\<lambda>response w. (Inr response, session_close session w))"

text \<open>\<open>_delete\<close> reads \<open>await response.status\<close>: an \<open>await\<close> on the integer attribute.\<close>

definition u_delete ::
  "transport \<Rightarrow> nat \<Rightarrow> string \<Rightarrow> ClientTimeout \<Rightarrow> headers \<Rightarrow> kwargs \<Rightarrow> world \<Rightarrow> pyval result" where
  "u_delete srv session url timeout hdrs kw =
     then_with
       (then_with
          (session_send srv
             \<lparr>c_verb = DELETE, c_session = session, c_url = url, c_params = None,
              c_data = None, c_json = None, c_headers = hdrs, c_timeout = timeout,
              c_kwargs = kw\<rparr>)
          (\<lambda>response. py_await (PInt (r_status response))))
       (\<lambda>response w. (Inr response, session_close session w))"

subsection \<open>Coroutine objects\<close>

text \<open>
  Calling an \<open>async def\<close> function runs none of its body: the call binds the arguments
  and returns a coroutine object, and the body runs when the object is awaited. A
  coroutine object is the sender with its bound arguments.
\<close>

datatype coroutine =
    Co_get nat string ClientTimeout pyval headers kwargs
  | Co_post nat string ClientTimeout pyval pyval headers kwargs
  | Co_put nat string ClientTimeout pyval headers kwargs
  | Co_patch nat string ClientTimeout pyval headers kwargs
  | Co_delete nat string ClientTimeout headers kwargs

fun run_coroutine :: "transport \<Rightarrow> coroutine \<Rightarrow> world \<Rightarrow> pyval result" where
  "run_coroutine srv (Co_get s u t p h k) = u_get srv s u t p h k"
| "run_coroutine srv (Co_post s u t d j h k) = u_post srv s u t d j h k"
| "run_coroutine srv (Co_put s u t d h k) = u_put srv s u t d h k"
| "run_coroutine srv (Co_patch s u t d h k) = u_patch srv s u t d h k"
| "run_coroutine srv (Co_delete s u t h k) = u_delete srv s u t h k"

text \<open>
  A call \<open>f(a=..., b=..., **kwargs)\<close> raises \<open>TypeError\<close> (multiple values for a keyword
  argument) when \<open>kwargs\<close> holds a key that is also written out or bound positionally.
\<close>

definition bind_keywords :: "string list \<Rightarrow> kwargs \<Rightarrow> world \<Rightarrow> unit result" where
  "bind_keywords names kw w =
     (case find (\<lambda>k. k \<in> set names) (map fst kw) of
        None \<Rightarrow> (Inr (), w)
      | Some k \<Rightarrow> (Inl (Exn ''TypeError'' [PStr ''got multiple values for keyword argument'', PStr k]), w))"

text \<open>A keyword parameter with default \<open>None\<close>, and what is left for \<open>**kwargs\<close>.\<close>

definition kw_get :: "string \<Rightarrow> kwargs \<Rightarrow> pyval" where
  "kw_get k kw = (case map_of kw k of None \<Rightarrow> PNone | Some v \<Rightarrow> v)"

definition kw_rest :: "string list \<Rightarrow> kwargs \<Rightarrow> kwargs" where
  "kw_rest names kw = filter (\<lambda>(k, v). k \<notin> set names) kw"

text \<open>
  \<open>str.lower()\<close> on ASCII strings: the letters A to Z move to a to z, every other
  character stays. No character outside ASCII lowers to one of the letters of the five
  verb names, so the lookup by \<open>method.lower()\<close> finds the same entry.
\<close>

definition lower_char :: "char \<Rightarrow> char" where
  "lower_char c =
     (if 65 \<le> (of_char c :: nat) \<and> (of_char c :: nat) \<le> 90 then char_of ((of_char c :: nat) + 32) else c)"

definition str_lower :: "string \<Rightarrow> string" where
  "str_lower s = map lower_char s"

subsection \<open>The dispatch\<close>

text \<open>
  The five values of the dictionary literal in \<open>_request\<close>, in the order written. Each one
  evaluates \<open>self._client_session\<close>, then \<open>self.header\<close> and \<open>self._time_out\<close>, and calls
  the sender, which gives a coroutine object.
\<close>

definition entry_get :: "Request \<Rightarrow> string \<Rightarrow> pyval \<Rightarrow> kwargs \<Rightarrow> world \<Rightarrow> coroutine result" where
  "entry_get self url params kw w =
     (let (s, w1) = u_client_session self w in
      then_with (bind_keywords [''session'', ''url'', ''params'', ''headers'', ''timeout''] kw)
        (\<lambda>_ w2. (Inr (Co_get s url (u_time_out self) params (header self) kw), w2)) w1)"

definition entry_post :: "Request \<Rightarrow> string \<Rightarrow> pyval \<Rightarrow> pyval \<Rightarrow> kwargs \<Rightarrow> world \<Rightarrow> coroutine result" where
  "entry_post self url data js kw w =
     (let (s, w1) = u_client_session self w in
      then_with (bind_keywords [''session'', ''url'', ''data'', ''json'', ''headers'', ''timeout''] kw)
        (\<lambda>_ w2. (Inr (Co_post s url (u_time_out self) data js (header self) kw), w2)) w1)"

definition entry_put :: "Request \<Rightarrow> string \<Rightarrow> pyval \<Rightarrow> kwargs \<Rightarrow> world \<Rightarrow> coroutine result" where
  "entry_put self url data kw w =
     (let (s, w1) = u_client_session self w in
      then_with (bind_keywords [''session'', ''url'', ''data'', ''headers'', ''timeout''] kw)
        (\<lambda>_ w2. (Inr (Co_put s url (u_time_out self) data (header self) kw), w2)) w1)"

definition entry_patch :: "Request \<Rightarrow> string \<Rightarrow> pyval \<Rightarrow> kwargs \<Rightarrow> world \<Rightarrow> coroutine result" where
  "entry_patch self url data kw w =
     (let (s, w1) = u_client_session self w in
      then_with (bind_keywords [''session'', ''url'', ''data'', ''headers'', ''timeout''] kw)
        (\<lambda>_ w2. (Inr (Co_patch s url (u_time_out self) data (header self) kw), w2)) w1)"

definition entry_delete :: "Request \<Rightarrow> string \<Rightarrow> kwargs \<Rightarrow> world \<Rightarrow> coroutine result" where
  "entry_delete self url kw w =
     (let (s, w1) = u_client_session self w in
      then_with (bind_keywords [''session'', ''url'', ''headers'', ''timeout''] kw)
        (\<lambda>_ w2. (Inr (Co_delete s url (u_time_out self) (header self) kw), w2)) w1)"

definition dispatch_table ::
  "Request \<Rightarrow> string \<Rightarrow> pyval \<Rightarrow> pyval \<Rightarrow> pyval \<Rightarrow> kwargs \<Rightarrow> world \<Rightarrow> (string \<times> coroutine) list result" where
  "dispatch_table self url params data js kw =
     then_with (entry_get self url params kw) (\<lambda>g.
     then_with (entry_post self url data js kw) (\<lambda>p.
     then_with (entry_put self url data kw) (\<lambda>u.
     then_with (entry_patch self url data kw) (\<lambda>a.
     then_with (entry_delete self url kw) (\<lambda>d w.
       (Inr [(''get'', g), (''post'', p), (''put'', u), (''patch'', a), (''delete'', d)], w))))))"

text \<open>
  \<open>await asyncio.gather(x)\<close> with one argument: \<open>None\<close> is not awaitable and \<open>gather\<close>
  raises \<open>TypeError\<close>; a coroutine is run, its exception is raised again, and its result
  comes back in a list of one element.
\<close>

definition gather :: "transport \<Rightarrow> coroutine option \<Rightarrow> world \<Rightarrow> pyval result" where
  "gather srv x w =
     (case x of
        None \<Rightarrow> (Inl (Exn ''TypeError'' [PStr ''An asyncio.Future, a coroutine or an awaitable is required'']), w)
      | Some co \<Rightarrow> then_with (run_coroutine srv co) (\<lambda>v w'. (Inr (PList [v]), w')) w)"

definition u_request ::
  "transport \<Rightarrow> Request \<Rightarrow> string \<Rightarrow> string \<Rightarrow> pyval \<Rightarrow> pyval \<Rightarrow> pyval \<Rightarrow> kwargs \<Rightarrow> world \<Rightarrow> pyval result" where
  "u_request srv self method url params data js kw =
     then_with (dispatch_table self url params data js kw)
       (\<lambda>table. gather srv (map_of table (str_lower method)))"

text \<open>
  \<open>request(self, *, method, url, **kwargs)\<close> is \<open>asyncio.run(self._request(method, url, **kwargs))\<close>:
  the keywords \<open>params\<close>, \<open>data\<close> and \<open>json\<close> bind to the parameters of \<open>_request\<close> of those
  names (default \<open>None\<close>), the others stay in its \<open>**kwargs\<close>; \<open>asyncio.run\<close> runs the
  coroutine to its end and gives its result or raises its exception.
\<close>

definition request :: "transport \<Rightarrow> Request \<Rightarrow> string \<Rightarrow> string \<Rightarrow> kwargs \<Rightarrow> world \<Rightarrow> pyval result" where
  "request srv self method url kw =
     then_with (bind_keywords [''self'', ''method'', ''url''] kw)
       (\<lambda>_. u_request srv self method url
              (kw_get ''params'' kw) (kw_get ''data'' kw) (kw_get ''json'' kw)
              (kw_rest [''params'', ''data'', ''json''] kw))"

section \<open>Vocabulary of the properties\<close>

text \<open>
  The keys of the dictionary literal, the keywords a caller cannot pass through
  \<open>**kwargs\<close> without a clash, and the class of the exception a call ends with.
\<close>

definition reserved_keywords :: "string list" where
  "reserved_keywords = [''self'', ''method'', ''url'', ''session'', ''headers'', ''timeout'']"

definition passthrough_ok :: "kwargs \<Rightarrow> bool" where
  "passthrough_ok kw = list_all (\<lambda>k. k \<notin> set reserved_keywords) (map fst kw)"

definition supported_methods :: "string list" where
  "supported_methods = [''get'', ''post'', ''put'', ''patch'', ''delete'']"

fun verb_name :: "verb \<Rightarrow> string" where
  "verb_name GET = ''get''"
| "verb_name POST = ''post''"
| "verb_name PUT = ''put''"
| "verb_name PATCH = ''patch''"
| "verb_name DELETE = ''delete''"

definition raises :: "'a result \<Rightarrow> string \<Rightarrow> bool" where
  "raises r cls = (case fst r of Inl e \<Rightarrow> exn_class e = cls | Inr v \<Rightarrow> False)"

definition fresh_session :: "Request \<Rightarrow> session" where
  "fresh_session self = \<lparr>s_timeout = request_timeout self, s_limit = 30, s_closed = False\<rparr>"

definition with_five :: "Request \<Rightarrow> world \<Rightarrow> world" where
  "with_five self w = w\<lparr>sessions := sessions w @ replicate 5 (fresh_session self)\<rparr>"

definition built_table :: "Request \<Rightarrow> nat \<Rightarrow> string \<Rightarrow> pyval \<Rightarrow> pyval \<Rightarrow> pyval \<Rightarrow> kwargs \<Rightarrow> (string \<times> coroutine) list" where
  "built_table self n url p d j kw =
     [(''get'', Co_get n url (request_timeout self) p (header self) kw),
      (''post'', Co_post (n + 1) url (request_timeout self) d j (header self) kw),
      (''put'', Co_put (n + 2) url (request_timeout self) d (header self) kw),
      (''patch'', Co_patch (n + 3) url (request_timeout self) d (header self) kw),
      (''delete'', Co_delete (n + 4) url (request_timeout self) (header self) kw)]"

text \<open>The network operation a coroutine object issues when it is run.\<close>

fun co_call :: "coroutine \<Rightarrow> call" where
  "co_call (Co_get s u t p h k) =
     \<lparr>c_verb = GET, c_session = s, c_url = u, c_params = Some p, c_data = None, c_json = None,
      c_headers = h, c_timeout = t, c_kwargs = k\<rparr>"
| "co_call (Co_post s u t d j h k) =
     \<lparr>c_verb = POST, c_session = s, c_url = u, c_params = None, c_data = Some d, c_json = Some j,
      c_headers = h, c_timeout = t, c_kwargs = k\<rparr>"
| "co_call (Co_put s u t d h k) =
     \<lparr>c_verb = PUT, c_session = s, c_url = u, c_params = None, c_data = Some d, c_json = None,
      c_headers = h, c_timeout = t, c_kwargs = k\<rparr>"
| "co_call (Co_patch s u t d h k) =
     \<lparr>c_verb = PATCH, c_session = s, c_url = u, c_params = None, c_data = Some d, c_json = None,
      c_headers = h, c_timeout = t, c_kwargs = k\<rparr>"
| "co_call (Co_delete s u t h k) =
     \<lparr>c_verb = DELETE, c_session = s, c_url = u, c_params = None, c_data = None, c_json = None,
      c_headers = h, c_timeout = t, c_kwargs = k\<rparr>"

text \<open>
  A computation is quiet when it issues no network operation and, if it fails, fails with
  a \<open>TypeError\<close>; \<open>Q\<close> holds of the value it gives otherwise.
\<close>

definition quiet :: "('a \<Rightarrow> bool) \<Rightarrow> (world \<Rightarrow> 'a result) \<Rightarrow> bool" where
  "quiet Q m \<longleftrightarrow>
     (\<forall>w. calls (snd (m w)) = calls w \<and>
          (case fst (m w) of Inl e \<Rightarrow> exn_class e = ''TypeError'' | Inr x \<Rightarrow> Q x))"

subsection \<open>Concrete inputs\<close>

text \<open>An empty state, a client as \<open>__init__\<close> leaves it, and servers that give one fixed answer.\<close>

definition world0 :: world where
  "world0 = \<lparr>sessions = [], calls = [], decodes = 0\<rparr>"

definition example_url :: string where
  "example_url = ''https://httpbin.org/anything''"

definition response_a1 :: response where
  \<open>response_a1 = \<lparr>r_status = 200, r_body = ''{"a": 1}'', r_json = Inr (PDict [(''a'', PInt 1)])\<rparr>\<close>

definition server_a1 :: transport where
  "server_a1 c = Inr response_a1"

definition response_204 :: response where
  "response_204 = \<lparr>r_status = 204, r_body = [], r_json = Inr PNone\<rparr>"

definition server_204 :: transport where
  "server_204 c = Inr response_204"

definition response_html :: response where
  "response_html =
     \<lparr>r_status = 200, r_body = ''<html></html>'',
      r_json = Inl (Exn ''ContentTypeError'' [PStr ''Attempt to decode JSON with unexpected mimetype''])\<rparr>"

definition server_html :: transport where
  "server_html c = Inr response_html"

section \<open>Keyword binding and the dispatch table\<close>

lemma bind_keywords_ok:
  "set (map fst kw) \<inter> set names = {} \<Longrightarrow> bind_keywords names kw w = (Inr (), w)"
proof -
  assume d: "set (map fst kw) \<inter> set names = {}"
  have "find (\<lambda>k. k \<in> set names) (map fst kw) = None"
    using d by (auto simp: find_None_iff)
  then show ?thesis by (simp add: bind_keywords_def)
qed

lemma disjoint_mono: "A \<inter> B = {} \<Longrightarrow> C \<subseteq> B \<Longrightarrow> A \<inter> C = {}"
  by blast

lemma bind_keywords_cases:
  "bind_keywords names kw w = (Inr (), w) \<or>
   (\<exists>a. bind_keywords names kw w = (Inl (Exn ''TypeError'' a), w))"
  by (cases "find (\<lambda>k. k \<in> set names) (map fst kw)") (simp_all add: bind_keywords_def)

lemma passthrough_ok_keys:
  "passthrough_ok kw \<Longrightarrow> set (map fst kw) \<inter> set reserved_keywords = {}"
  by (auto simp: passthrough_ok_def list_all_iff)

lemma dispatch_table_ok:
  assumes "set (map fst kw) \<inter> {''session'', ''url'', ''headers'', ''timeout'', ''params'', ''data'', ''json''} = {}"
  shows "dispatch_table self url p d j kw w =
         (Inr (built_table self (length (sessions w)) url p d j kw), with_five self w)"
proof -
  have b: "\<And>names w'. set names \<subseteq> {''session'', ''url'', ''headers'', ''timeout'', ''params'', ''data'', ''json''}
     \<Longrightarrow> bind_keywords names kw w' = (Inr (), w')"
    by (rule bind_keywords_ok, rule disjoint_mono [OF assms])
  show ?thesis
    by (simp add: dispatch_table_def entry_get_def entry_post_def entry_put_def entry_patch_def
        entry_delete_def then_with_def b u_client_session_def new_session_def u_time_out_def
        built_table_def with_five_def fresh_session_def numeral_eq_Suc)
qed

lemma request_ok:
  assumes "passthrough_ok kw"
  shows "request srv self m url kw w =
         gather srv (map_of (built_table self (length (sessions w)) url
                      (kw_get ''params'' kw) (kw_get ''data'' kw) (kw_get ''json'' kw)
                      (kw_rest [''params'', ''data'', ''json''] kw)) (str_lower m))
           (with_five self w)"
proof -
  have k: "set (map fst kw) \<inter> set reserved_keywords = {}"
    using assms by (rule passthrough_ok_keys)
  have b1: "bind_keywords [''self'', ''method'', ''url''] kw w = (Inr (), w)"
    using k by (intro bind_keywords_ok) (auto simp: reserved_keywords_def)
  have r: "set (map fst (kw_rest [''params'', ''data'', ''json''] kw))
            \<inter> {''session'', ''url'', ''headers'', ''timeout'', ''params'', ''data'', ''json''} = {}"
    using k by (auto simp: kw_rest_def reserved_keywords_def)
  show ?thesis
    by (simp add: request_def u_request_def then_with_def b1 dispatch_table_ok [OF r])
qed

section \<open>Running a coroutine\<close>

lemmas sender_defs = u_get_def u_post_def u_put_def u_patch_def u_delete_def
  then_with_def session_send_def response_json_def py_await_def

lemma run_coroutine_calls:
  "calls (snd (run_coroutine srv co w)) = calls w @ [co_call co]"
  by (cases co) (auto simp: sender_defs session_close_def split: sum.splits)

lemma run_coroutine_value:
  "fst (run_coroutine srv co w) =
     (case srv (co_call co) of
        Inl e \<Rightarrow> Inl e
      | Inr resp \<Rightarrow>
          if c_verb (co_call co) = DELETE
          then Inl (Exn ''TypeError'' [PStr ''object cannot be used in await expression''])
          else r_json resp)"
  by (cases co) (auto simp: sender_defs split: sum.splits)

lemma run_coroutine_sessions:
  "sessions (snd (run_coroutine srv co w)) =
     (case fst (run_coroutine srv co w) of
        Inl e \<Rightarrow> sessions w
      | Inr v \<Rightarrow> sessions (session_close (c_session (co_call co)) w))"
  by (cases co) (auto simp: sender_defs session_close_def split: sum.splits)

lemma run_coroutine_decodes:
  "decodes (snd (run_coroutine srv co w)) =
     (case srv (co_call co) of
        Inl e \<Rightarrow> decodes w
      | Inr resp \<Rightarrow> if c_verb (co_call co) = DELETE then decodes w else Suc (decodes w))"
  by (cases co) (auto simp: sender_defs session_close_def split: sum.splits)

lemma gather_Some_calls:
  "calls (snd (gather srv (Some co) w)) = calls w @ [co_call co]"
  using run_coroutine_calls [of srv co w]
  by (cases "run_coroutine srv co w") (auto simp: gather_def then_with_def split: sum.splits)

lemma gather_Some_value:
  "fst (gather srv (Some co) w) =
     (case fst (run_coroutine srv co w) of Inl e \<Rightarrow> Inl e | Inr v \<Rightarrow> Inr (PList [v]))"
  by (cases "run_coroutine srv co w") (auto simp: gather_def then_with_def split: sum.splits)

lemma gather_Some_world:
  "snd (gather srv (Some co) w) = snd (run_coroutine srv co w)"
  by (cases "run_coroutine srv co w") (auto simp: gather_def then_with_def split: sum.splits)

lemma lookup_supported:
  assumes "str_lower m \<in> set supported_methods"
  shows "\<exists>co i. map_of (built_table self n url p d j kw) (str_lower m) = Some co \<and>
           i < 5 \<and> supported_methods ! i = str_lower m \<and>
           c_session (co_call co) = n + i \<and>
           verb_name (c_verb (co_call co)) = str_lower m \<and>
           c_url (co_call co) = url \<and>
           c_timeout (co_call co) = request_timeout self \<and>
           c_headers (co_call co) = header self \<and>
           c_kwargs (co_call co) = kw \<and>
           c_json (co_call co) = (if str_lower m = ''post'' then Some j else None) \<and>
           c_data (co_call co) = (if str_lower m \<in> {''post'', ''put'', ''patch''} then Some d else None) \<and>
           c_params (co_call co) = (if str_lower m = ''get'' then Some p else None)"
proof -
  consider "str_lower m = ''get''" | "str_lower m = ''post''" | "str_lower m = ''put''"
    | "str_lower m = ''patch''" | "str_lower m = ''delete''"
    using assms by (auto simp: supported_methods_def)
  then show ?thesis
  proof cases
    case 1 then show ?thesis
      by (intro exI [of _ "Co_get n url (request_timeout self) p (header self) kw"] exI [of _ 0])
         (simp add: built_table_def supported_methods_def)
  next
    case 2 then show ?thesis
      by (intro exI [of _ "Co_post (n + 1) url (request_timeout self) d j (header self) kw"] exI [of _ 1])
         (simp add: built_table_def supported_methods_def)
  next
    case 3 then show ?thesis
      by (intro exI [of _ "Co_put (n + 2) url (request_timeout self) d (header self) kw"] exI [of _ 2])
         (simp add: built_table_def supported_methods_def)
  next
    case 4 then show ?thesis
      by (intro exI [of _ "Co_patch (n + 3) url (request_timeout self) d (header self) kw"] exI [of _ 3])
         (simp add: built_table_def supported_methods_def)
  next
    case 5 then show ?thesis
      by (intro exI [of _ "Co_delete (n + 4) url (request_timeout self) (header self) kw"] exI [of _ 4])
         (simp add: built_table_def supported_methods_def)
  qed
qed

section \<open>What a call of request comes down to\<close>

lemma request_supported:
  assumes "str_lower method \<in> set supported_methods" and "passthrough_ok kw"
  obtains co and i :: nat where
    "request srv self method url kw w = gather srv (Some co) (with_five self w)"
    "i < 5" "supported_methods ! i = str_lower method"
    "c_session (co_call co) = length (sessions w) + i"
    "verb_name (c_verb (co_call co)) = str_lower method"
    "c_url (co_call co) = url"
    "c_timeout (co_call co) = request_timeout self"
    "c_headers (co_call co) = header self"
    "c_kwargs (co_call co) = kw_rest [''params'', ''data'', ''json''] kw"
    "c_json (co_call co) = (if str_lower method = ''post'' then Some (kw_get ''json'' kw) else None)"
    "c_data (co_call co) = (if str_lower method \<in> {''post'', ''put'', ''patch''} then Some (kw_get ''data'' kw) else None)"
    "c_params (co_call co) = (if str_lower method = ''get'' then Some (kw_get ''params'' kw) else None)"
proof -
  from lookup_supported [OF assms(1), of self "length (sessions w)" url "kw_get ''params'' kw"
      "kw_get ''data'' kw" "kw_get ''json'' kw" "kw_rest [''params'', ''data'', ''json''] kw"]
  obtain co i where h:
    "map_of (built_table self (length (sessions w)) url (kw_get ''params'' kw)
       (kw_get ''data'' kw) (kw_get ''json'' kw) (kw_rest [''params'', ''data'', ''json''] kw))
       (str_lower method) = Some co"
    "i < 5" "supported_methods ! i = str_lower method"
    "c_session (co_call co) = length (sessions w) + i"
    "verb_name (c_verb (co_call co)) = str_lower method"
    "c_url (co_call co) = url"
    "c_timeout (co_call co) = request_timeout self"
    "c_headers (co_call co) = header self"
    "c_kwargs (co_call co) = kw_rest [''params'', ''data'', ''json''] kw"
    "c_json (co_call co) = (if str_lower method = ''post'' then Some (kw_get ''json'' kw) else None)"
    "c_data (co_call co) = (if str_lower method \<in> {''post'', ''put'', ''patch''} then Some (kw_get ''data'' kw) else None)"
    "c_params (co_call co) = (if str_lower method = ''get'' then Some (kw_get ''params'' kw) else None)"
    by (elim exE conjE)
  have "request srv self method url kw w = gather srv (Some co) (with_five self w)"
    by (simp only: request_ok [OF assms(2)] h(1))
  then show thesis using h(2-) by (rule that)
qed


lemma with_five_calls: "calls (with_five self w) = calls w"
  by (simp add: with_five_def)

lemma with_five_length: "length (sessions (with_five self w)) = length (sessions w) + 5"
  by (simp add: with_five_def)

lemma kw_rest_disjoint:
  assumes "passthrough_ok kw"
  shows "set (map fst (kw_rest [''params'', ''data'', ''json''] kw))
            \<inter> {''session'', ''url'', ''headers'', ''timeout'', ''params'', ''data'', ''json''} = {}"
proof -
  have k: "set (map fst kw) \<inter> set reserved_keywords = {}"
    using assms by (rule passthrough_ok_keys)
  show ?thesis
    using k by (auto simp: kw_rest_def reserved_keywords_def)
qed

lemma built_table_keys: "map fst (built_table self n url p d j kw) = supported_methods"
  by (simp add: built_table_def supported_methods_def)

lemma verb_name_get: "verb_name v = ''get'' \<Longrightarrow> v = GET"
  by (cases v) simp_all

subsection \<open>Sessions after a call\<close>

lemma u_delete_always_fails: "isl (fst (u_delete srv s u t h k w))"
  by (simp add: sender_defs split: sum.splits prod.splits)

lemma verb_name_delete: "v = DELETE \<Longrightarrow> verb_name v = ''delete''"
  by simp

lemma five_nth:
  "i < 5 \<Longrightarrow> j < 5 \<Longrightarrow> (replicate 5 x)[i := y] ! j = (if j = i then y else x)"
  by (simp add: nth_list_update)

lemma sessions_after_run:
  assumes "c_session (co_call co) = length (sessions w) + i" and "i < 5"
  shows "sessions (snd (run_coroutine srv co (with_five self w))) =
           sessions w @ (if isl (fst (run_coroutine srv co (with_five self w)))
                         then replicate 5 (fresh_session self)
                         else (replicate 5 (fresh_session self))[i := (fresh_session self)\<lparr>s_closed := True\<rparr>])"
proof (cases "fst (run_coroutine srv co (with_five self w))")
  case (Inl e)
  then have "sessions (snd (run_coroutine srv co (with_five self w))) = sessions (with_five self w)"
    by (simp add: run_coroutine_sessions)
  then show ?thesis using Inl by (simp add: with_five_def)
next
  case (Inr v)
  then have "sessions (snd (run_coroutine srv co (with_five self w))) =
             sessions (session_close (length (sessions w) + i) (with_five self w))"
    by (simp add: run_coroutine_sessions assms(1))
  then show ?thesis using Inr assms(2)
    by (simp add: with_five_def session_close_def list_update_append nth_append)
qed


lemma request_session_timeouts:
  assumes "str_lower method \<in> set supported_methods" and "passthrough_ok kw" and "j < 5"
  shows "s_timeout (sessions (snd (request srv self method url kw w)) ! (length (sessions w) + j))
           = request_timeout self"
proof -
  obtain co and i :: nat where co:
    "request srv self method url kw w = gather srv (Some co) (with_five self w)"
    "i < 5" "c_session (co_call co) = length (sessions w) + i"
    using assms(1,2) by (rule request_supported)
  let ?fs = "fresh_session self"
  have ss: "sessions (snd (request srv self method url kw w)) =
              sessions w @ (if isl (fst (run_coroutine srv co (with_five self w)))
                            then replicate 5 ?fs
                            else (replicate 5 ?fs)[i := ?fs\<lparr>s_closed := True\<rparr>])"
    by (simp only: co(1) gather_Some_world sessions_after_run [OF co(3) co(2)])
  have "s_timeout ?fs = request_timeout self" by (simp add: fresh_session_def)
  then show ?thesis using co(2) assms(3) by (simp add: ss five_nth)
qed

lemma setter_timeout: "request_timeout (u_time_out_set s self) = ClientTimeout s"
  by (simp add: u_time_out_set_def)

lemma kw_rest_no_json: "''json'' \<notin> fst ` set (kw_rest [''params'', ''data'', ''json''] kw)"
  by (auto simp: kw_rest_def)

section \<open>Calls that issue nothing\<close>

lemma quiet_then_with:
  assumes "quiet Q m" and "\<And>x. Q x \<Longrightarrow> quiet R (f x)"
  shows "quiet R (then_with m f)"
proof -
  have "calls (snd (then_with m f w)) = calls w \<and>
        (case fst (then_with m f w) of Inl e \<Rightarrow> exn_class e = ''TypeError'' | Inr x \<Rightarrow> R x)" for w
  proof (cases "m w")
    case (Pair r w1)
    have c1: "calls w1 = calls w" using assms(1) Pair by (auto simp: quiet_def dest: spec [of _ w])
    show ?thesis
    proof (cases r)
      case (Inl e)
      have "exn_class e = ''TypeError''"
        using assms(1) Pair Inl by (auto simp: quiet_def dest: spec [of _ w])
      then show ?thesis using Pair Inl c1 by (simp add: then_with_def)
    next
      case (Inr x)
      have "Q x" using assms(1) Pair Inr by (auto simp: quiet_def dest: spec [of _ w])
      then have "quiet R (f x)" by (rule assms(2))
      then have "calls (snd (f x w1)) = calls w1 \<and>
        (case fst (f x w1) of Inl e \<Rightarrow> exn_class e = ''TypeError'' | Inr y \<Rightarrow> R y)"
        by (simp add: quiet_def)
      then show ?thesis using Pair Inr c1 by (simp add: then_with_def)
    qed
  qed
  then show ?thesis by (simp add: quiet_def)
qed

lemma quiet_bind_keywords: "quiet (\<lambda>_. True) (bind_keywords names kw)"
proof -
  have "calls (snd (bind_keywords names kw w)) = calls w \<and>
        (case fst (bind_keywords names kw w) of Inl e \<Rightarrow> exn_class e = ''TypeError'' | Inr x \<Rightarrow> True)" for w
    using bind_keywords_cases [of names kw w] by auto
  then show ?thesis by (simp add: quiet_def)
qed

lemma quiet_return: "Q x \<Longrightarrow> quiet Q (\<lambda>w. (Inr x, w))"
  by (simp add: quiet_def)

lemma quiet_after_session:
  assumes "\<And>s. quiet Q (m s)"
  shows "quiet Q (\<lambda>w. case u_client_session self w of (s, w1) \<Rightarrow> m s w1)"
  using assms by (simp add: quiet_def u_client_session_def new_session_def)

lemma quiet_entry_get: "quiet (\<lambda>_. True) (entry_get self url p kw)"
  unfolding entry_get_def Let_def
  by (intro quiet_after_session quiet_then_with [OF quiet_bind_keywords] quiet_return TrueI)

lemma quiet_entry_post: "quiet (\<lambda>_. True) (entry_post self url d j kw)"
  unfolding entry_post_def Let_def
  by (intro quiet_after_session quiet_then_with [OF quiet_bind_keywords] quiet_return TrueI)

lemma quiet_entry_put: "quiet (\<lambda>_. True) (entry_put self url d kw)"
  unfolding entry_put_def Let_def
  by (intro quiet_after_session quiet_then_with [OF quiet_bind_keywords] quiet_return TrueI)

lemma quiet_entry_patch: "quiet (\<lambda>_. True) (entry_patch self url d kw)"
  unfolding entry_patch_def Let_def
  by (intro quiet_after_session quiet_then_with [OF quiet_bind_keywords] quiet_return TrueI)

lemma quiet_entry_delete: "quiet (\<lambda>_. True) (entry_delete self url kw)"
  unfolding entry_delete_def Let_def
  by (intro quiet_after_session quiet_then_with [OF quiet_bind_keywords] quiet_return TrueI)

lemma quiet_dispatch_table:
  "quiet (\<lambda>t. map fst t = supported_methods) (dispatch_table self url p d j kw)"
  unfolding dispatch_table_def
  by (intro quiet_then_with [OF quiet_entry_get] quiet_then_with [OF quiet_entry_post]
      quiet_then_with [OF quiet_entry_put] quiet_then_with [OF quiet_entry_patch]
      quiet_then_with [OF quiet_entry_delete] quiet_return)
    (simp add: supported_methods_def)

lemma quiet_gather_None: "quiet (\<lambda>_. False) (gather srv None)"
  by (simp add: quiet_def gather_def)

lemma quiet_u_request:
  assumes "str_lower method \<notin> set supported_methods"
  shows "quiet (\<lambda>_. False) (u_request srv self method url p d j kw)"
  unfolding u_request_def
proof (rule quiet_then_with [OF quiet_dispatch_table])
  fix t :: "(string \<times> coroutine) list"
  assume "map fst t = supported_methods"
  then have "str_lower method \<notin> fst ` set t" using assms by (metis set_map)
  then have "map_of t (str_lower method) = None" by (simp add: map_of_eq_None_iff)
  then show "quiet (\<lambda>_. False) (gather srv (map_of t (str_lower method)))"
    by (simp add: quiet_gather_None)
qed

lemma quiet_request:
  assumes "str_lower method \<notin> set supported_methods"
  shows "quiet (\<lambda>_. False) (request srv self method url kw)"
  unfolding request_def
  by (rule quiet_then_with [OF quiet_bind_keywords]) (rule quiet_u_request [OF assms])

section \<open>The dispatch of one call\<close>

text \<open>
  Claim C1, as amended. The spec says that every call of \<open>request\<close> with a supported
  method issues five live HTTP requests, one per verb, and throws four of the responses away.
  The code does not: the dictionary literal builds the five coroutine objects (and with them
  five sessions) without issuing any request, and only the coroutine selected by the key is
  run. For every supported method and pass-through options that clash with no keyword, the
  call issues exactly one request, against the given URL and with the verb of the method.
\<close>

theorem C1_builds_five_runs_one:
  assumes "str_lower method \<in> set supported_methods" and "passthrough_ok kw"
  shows "\<exists>table w1 c.
           dispatch_table self url (kw_get ''params'' kw) (kw_get ''data'' kw) (kw_get ''json'' kw)
             (kw_rest [''params'', ''data'', ''json''] kw) w = (Inr table, w1) \<and>
           map fst table = supported_methods \<and>
           length (sessions w1) = length (sessions w) + 5 \<and>
           calls w1 = calls w \<and>
           calls (snd (request srv self method url kw w)) = calls w @ [c] \<and>
           c_url c = url \<and> verb_name (c_verb c) = str_lower method"
proof -
  obtain co and i :: nat where co: "request srv self method url kw w = gather srv (Some co) (with_five self w)"
    "c_url (co_call co) = url" "verb_name (c_verb (co_call co)) = str_lower method"
    using assms by (rule request_supported)
  have sent: "calls (snd (request srv self method url kw w)) = calls w @ [co_call co]"
    by (simp only: co(1) gather_Some_calls with_five_calls)
  show ?thesis
  proof (intro exI conjI)
    show "dispatch_table self url (kw_get ''params'' kw) (kw_get ''data'' kw) (kw_get ''json'' kw)
             (kw_rest [''params'', ''data'', ''json''] kw) w =
          (Inr (built_table self (length (sessions w)) url (kw_get ''params'' kw) (kw_get ''data'' kw)
                 (kw_get ''json'' kw) (kw_rest [''params'', ''data'', ''json''] kw)), with_five self w)"
      by (rule dispatch_table_ok [OF kw_rest_disjoint [OF assms(2)]])
    show "map fst (built_table self (length (sessions w)) url (kw_get ''params'' kw) (kw_get ''data'' kw)
                 (kw_get ''json'' kw) (kw_rest [''params'', ''data'', ''json''] kw)) = supported_methods"
      by (rule built_table_keys)
    show "length (sessions (with_five self w)) = length (sessions w) + 5" by (rule with_five_length)
    show "calls (with_five self w) = calls w" by (rule with_five_calls)
    show "calls (snd (request srv self method url kw w)) = calls w @ [co_call co]" by (rule sent)
    show "c_url (co_call co) = url" by (rule co(2))
    show "verb_name (c_verb (co_call co)) = str_lower method" by (rule co(3))
  qed
qed

text \<open>The theorem at a GET on a fresh client, with no options.\<close>

theorem C1_builds_five_runs_one_witness:
  "str_lower ''GET'' \<in> set supported_methods \<and> passthrough_ok [] \<and>
   (\<exists>table w1 c.
      dispatch_table Request_init example_url (kw_get ''params'' []) (kw_get ''data'' [])
        (kw_get ''json'' []) (kw_rest [''params'', ''data'', ''json''] []) world0 = (Inr table, w1) \<and>
      map fst table = supported_methods \<and>
      length (sessions w1) = length (sessions world0) + 5 \<and>
      calls w1 = calls world0 \<and>
      calls (snd (request server_a1 Request_init ''GET'' example_url [] world0)) = calls world0 @ [c] \<and>
      c_url c = example_url \<and> verb_name (c_verb c) = str_lower ''GET'')"
proof -
  have m: "str_lower ''GET'' \<in> set supported_methods" by code_simp
  have k: "passthrough_ok []" by (simp add: passthrough_ok_def)
  show ?thesis
    by (rule conjI [OF m conjI [OF k
          C1_builds_five_runs_one [OF m k, of Request_init example_url world0 server_a1]]])
qed

text \<open>
  The claim as the spec states it fails there: the GET is the only operation that goes out.
\<close>

theorem C1_counterexample:
  "map c_verb (calls (snd (request server_a1 Request_init ''GET'' example_url [] world0))) = [GET] \<and>
   length (calls (snd (request server_a1 Request_init ''GET'' example_url [] world0))) \<noteq> 5"
  by code_simp



section \<open>Unsupported methods\<close>

text \<open>
  Claim C3, as amended. For a method string that is none of the five verbs in any case,
  the lookup in the table gives \<open>None\<close>, \<open>asyncio.gather\<close> rejects it, and the call
  fails with a \<open>TypeError\<close>; no network operation is issued. The code defines no
  \<open>UnsupportedMethodError\<close>.
\<close>

theorem C3_unsupported_method_TypeError:
  assumes "str_lower method \<notin> set supported_methods"
  shows "raises (request srv self method url kw w) ''TypeError'' \<and>
         calls (snd (request srv self method url kw w)) = calls w"
  using quiet_request [OF assms, of srv self url kw]
  by (auto simp: quiet_def raises_def dest: spec [of _ w] split: sum.splits)

text \<open>
  The theorem at the method HEAD.
\<close>

theorem C3_unsupported_method_TypeError_witness:
  "str_lower ''HEAD'' \<notin> set supported_methods \<and>
   raises (request server_a1 Request_init ''HEAD'' example_url [] world0) ''TypeError'' \<and>
   calls (snd (request server_a1 Request_init ''HEAD'' example_url [] world0)) = calls world0"
proof -
  have m: "str_lower ''HEAD'' \<notin> set supported_methods" by code_simp
  show ?thesis
    by (rule conjI [OF m
          C3_unsupported_method_TypeError [OF m, of server_a1 Request_init example_url "[]" world0]])
qed

text \<open>
  The claim as the spec states it fails there: the exception is not an \<open>UnsupportedMethodError\<close>.
\<close>

theorem C3_counterexample:
  "\<not> raises (request server_a1 Request_init ''HEAD'' example_url [] world0) ''UnsupportedMethodError''"
  by code_simp

section \<open>Results\<close>

text \<open>
  Claim C4, as amended. For a GET whose response decodes to a JSON value, \<open>request\<close>
  returns the list of one element that \<open>asyncio.gather\<close> builds around that value:
  for the body \<open>{"a": 1}\<close> it is \<open>[{"a": 1}]\<close>, not the mapping itself.
\<close>

theorem C4_get_returns_one_element_list:
  assumes "str_lower method = ''get''" and "passthrough_ok kw"
    and "\<And>c. c_verb c = GET \<Longrightarrow> c_url c = url \<Longrightarrow> srv c = Inr resp"
    and "r_json resp = Inr v"
  shows "fst (request srv self method url kw w) = Inr (PList [v])"
proof -
  have m: "str_lower method \<in> set supported_methods"
    using assms(1) by (simp add: supported_methods_def)
  obtain co and i :: nat where co: "request srv self method url kw w = gather srv (Some co) (with_five self w)"
    "verb_name (c_verb (co_call co)) = str_lower method" "c_url (co_call co) = url"
    using m assms(2) by (rule request_supported)
  have g: "c_verb (co_call co) = GET"
    using co(2) assms(1) by (simp add: verb_name_get)
  have "srv (co_call co) = Inr resp" using g co(3) by (rule assms(3))
  then have "fst (run_coroutine srv co (with_five self w)) = Inr v"
    using g assms(4) by (simp add: run_coroutine_value)
  then show ?thesis by (simp add: co(1) gather_Some_value)
qed

text \<open>
  The theorem at a server that answers 200 with the body \<open>{"a": 1}\<close>.
\<close>

theorem C4_get_returns_one_element_list_witness:
  "str_lower ''GET'' = ''get'' \<and> passthrough_ok [] \<and>
   r_status response_a1 = 200 \<and>
   r_json response_a1 = Inr (PDict [(''a'', PInt 1)]) \<and>
   fst (request server_a1 Request_init ''GET'' example_url [] world0) = Inr (PList [PDict [(''a'', PInt 1)]])"
proof -
  have m: "str_lower ''GET'' = ''get''" by code_simp
  have k: "passthrough_ok []" by (simp add: passthrough_ok_def)
  have s: "\<And>c. c_verb c = GET \<Longrightarrow> c_url c = example_url \<Longrightarrow> server_a1 c = Inr response_a1"
    by (simp add: server_a1_def)
  have j: "r_json response_a1 = Inr (PDict [(''a'', PInt 1)])" by (simp add: response_a1_def)
  have st: "r_status response_a1 = 200" by (simp add: response_a1_def)
  have r: "fst (request server_a1 Request_init ''GET'' example_url [] world0) = Inr (PList [PDict [(''a'', PInt 1)]])"
    by (rule C4_get_returns_one_element_list [OF m k s j])
  show ?thesis by (intro conjI m k st j r)
qed

text \<open>
  The claim as the spec states it fails there: the result is not the mapping.
\<close>

theorem C4_counterexample:
  "fst (request server_a1 Request_init ''GET'' example_url [] world0) \<noteq> Inr (PDict [(''a'', PInt 1)])"
  by code_simp

text \<open>
  Claim C5. The spec and the docstring of \<open>_delete\<close> say that a DELETE answered with
  status 204 and an empty body returns the status code, with no JSON decoding. The code
  awaits the integer \<open>response.status\<close>, which raises \<open>TypeError\<close>: the call fails,
  nothing is returned, and the body is indeed never decoded.
\<close>

theorem C5_delete_raises_TypeError:
  "raises (request server_204 Request_init ''DELETE'' example_url [] world0) ''TypeError'' \<and>
   fst (request server_204 Request_init ''DELETE'' example_url [] world0) \<noteq> Inr (PInt 204) \<and>
   decodes (snd (request server_204 Request_init ''DELETE'' example_url [] world0)) = 0"
  by code_simp

section \<open>Failures\<close>

text \<open>
  Claim C6. The spec requires the session to be closed on every exit path. In each sender
  \<open>await session.close()\<close> stands after the \<open>async with\<close> block, so an exception raised
  in the block skips it: after a POST whose body does not decode, the session the POST
  used (the second one constructed) is still open, as are the other four.
\<close>

theorem C6_post_decode_failure_leaves_session_open:
  "raises (request server_html Request_init ''POST'' example_url [] world0) ''ContentTypeError'' \<and>
   map c_session (calls (snd (request server_html Request_init ''POST'' example_url [] world0))) = [1] \<and>
   map s_closed (sessions (snd (request server_html Request_init ''POST'' example_url [] world0)))
     = [False, False, False, False, False]"
  by code_simp

text \<open>
  Claim C7, as amended. For a GET, POST, PUT or PATCH whose response the library fails to
  decode, the call fails with exactly the exception the decoder raised: the code catches
  nothing, builds no \<open>DecodeError\<close> and attaches neither status nor body.
\<close>

theorem C7_decode_failure_propagates:
  assumes "str_lower method \<in> {''get'', ''post'', ''put'', ''patch''}" and "passthrough_ok kw"
    and "\<And>c. c_url c = url \<Longrightarrow> srv c = Inr resp"
    and "r_json resp = Inl e"
  shows "fst (request srv self method url kw w) = Inl e"
proof -
  have m: "str_lower method \<in> set supported_methods"
    using assms(1) by (auto simp: supported_methods_def)
  obtain co and i :: nat where co:
    "request srv self method url kw w = gather srv (Some co) (with_five self w)"
    "verb_name (c_verb (co_call co)) = str_lower method" "c_url (co_call co) = url"
    using m assms(2) by (rule request_supported)
  have "str_lower method \<noteq> ''delete''" using assms(1) by auto
  then have g: "c_verb (co_call co) \<noteq> DELETE"
    using co(2) verb_name_delete by metis
  have "srv (co_call co) = Inr resp" using co(3) by (rule assms(3))
  then have "fst (run_coroutine srv co (with_five self w)) = Inl e"
    using g assms(4) by (simp add: run_coroutine_value)
  then show ?thesis by (simp add: co(1) gather_Some_value)
qed

text \<open>
  The theorem at a PUT answered with an HTML page.
\<close>

theorem C7_decode_failure_propagates_witness:
  "str_lower ''Put'' \<in> {''get'', ''post'', ''put'', ''patch''} \<and> passthrough_ok [] \<and>
   server_html \<lparr>c_verb = PUT, c_session = 2, c_url = example_url, c_params = None,
                c_data = Some PNone, c_json = None, c_headers = header Request_init,
                c_timeout = u_time_out Request_init, c_kwargs = []\<rparr> = Inr response_html \<and>
   r_json response_html = Inl (Exn ''ContentTypeError'' [PStr ''Attempt to decode JSON with unexpected mimetype'']) \<and>
   fst (request server_html Request_init ''Put'' example_url [] world0)
     = Inl (Exn ''ContentTypeError'' [PStr ''Attempt to decode JSON with unexpected mimetype''])"
proof -
  have m: "str_lower ''Put'' \<in> {''get'', ''post'', ''put'', ''patch''}" by code_simp
  have k: "passthrough_ok []" by (simp add: passthrough_ok_def)
  have s: "\<And>c. c_url c = example_url \<Longrightarrow> server_html c = Inr response_html"
    by (simp add: server_html_def)
  have s0: "server_html \<lparr>c_verb = PUT, c_session = 2, c_url = example_url, c_params = None,
                c_data = Some PNone, c_json = None, c_headers = header Request_init,
                c_timeout = u_time_out Request_init, c_kwargs = []\<rparr> = Inr response_html"
    by (simp add: server_html_def)
  have j: "r_json response_html = Inl (Exn ''ContentTypeError'' [PStr ''Attempt to decode JSON with unexpected mimetype''])"
    by (simp add: response_html_def)
  have r: "fst (request server_html Request_init ''Put'' example_url [] world0)
     = Inl (Exn ''ContentTypeError'' [PStr ''Attempt to decode JSON with unexpected mimetype''])"
    by (rule C7_decode_failure_propagates [OF m k s j])
  show ?thesis by (intro conjI m k s0 j r)
qed

text \<open>
  The claim as the spec states it fails at a GET answered with that page: the failure is the
  decoder's own exception, not a \<open>DecodeError\<close>.
\<close>

theorem C7_counterexample:
  "fst (request server_html Request_init ''GET'' example_url [] world0) = r_json response_html \<and>
   \<not> raises (request server_html Request_init ''GET'' example_url [] world0) ''DecodeError''"
  by code_simp

section \<open>The timeout\<close>

text \<open>
  Claim C8. The setter stores \<open>ClientTimeout(total=s)\<close>. A request made afterwards
  passes that timeout to the network operation and constructs its session with it. A
  request in flight is a coroutine object already built: the senders are static and read
  nothing from the client, so in whatever state \<open>w2\<close> the coroutine runs, after any call
  of the setter, its operation carries the timeout read when the table was built, and its
  session was constructed with that timeout.
\<close>

theorem C8_timeout_setter:
  assumes "str_lower method \<in> set supported_methods" and "passthrough_ok kw"
  shows "u_time_out (u_time_out_set s self) = ClientTimeout s \<and>
         (\<exists>c. calls (snd (request srv (u_time_out_set s self) method url kw w)) = calls w @ [c] \<and>
               c_timeout c = ClientTimeout s \<and>
               s_timeout (sessions (snd (request srv (u_time_out_set s self) method url kw w)) ! c_session c)
                 = ClientTimeout s) \<and>
         (\<exists>table w1 co.
               dispatch_table self url (kw_get ''params'' kw) (kw_get ''data'' kw) (kw_get ''json'' kw)
                 (kw_rest [''params'', ''data'', ''json''] kw) w = (Inr table, w1) \<and>
               map_of table (str_lower method) = Some co \<and>
               s_timeout (sessions w1 ! c_session (co_call co)) = u_time_out self \<and>
               (\<forall>w2. \<exists>c. calls (snd (gather srv (Some co) w2)) = calls w2 @ [c] \<and>
                          c_session c = c_session (co_call co) \<and>
                          c_timeout c = u_time_out self))"
proof (intro conjI)
  show "u_time_out (u_time_out_set s self) = ClientTimeout s"
    by (simp add: u_time_out_def u_time_out_set_def)
next
  let ?self = "u_time_out_set s self"
  obtain co and i :: nat where co:
    "request srv ?self method url kw w = gather srv (Some co) (with_five ?self w)"
    "i < 5" "c_session (co_call co) = length (sessions w) + i"
    "c_timeout (co_call co) = request_timeout ?self"
    using assms by (rule request_supported)
  have sent: "calls (snd (request srv ?self method url kw w)) = calls w @ [co_call co]"
    by (simp only: co(1) gather_Some_calls with_five_calls)
  have t: "c_timeout (co_call co) = ClientTimeout s"
    by (simp only: co(4) setter_timeout)
  have st: "s_timeout (sessions (snd (request srv ?self method url kw w)) ! c_session (co_call co))
              = ClientTimeout s"
    by (simp only: co(3) request_session_timeouts [OF assms co(2)] setter_timeout)
  show "\<exists>c. calls (snd (request srv ?self method url kw w)) = calls w @ [c] \<and>
             c_timeout c = ClientTimeout s \<and>
             s_timeout (sessions (snd (request srv ?self method url kw w)) ! c_session c) = ClientTimeout s"
    using sent t st by (intro exI [of _ "co_call co"] conjI)
next
  let ?p = "kw_get ''params'' kw" and ?d = "kw_get ''data'' kw" and ?j = "kw_get ''json'' kw"
  let ?rest = "kw_rest [''params'', ''data'', ''json''] kw"
  let ?table = "built_table self (length (sessions w)) url ?p ?d ?j ?rest"
  from lookup_supported [OF assms(1), of self "length (sessions w)" url ?p ?d ?j ?rest]
  obtain co and i :: nat where co:
    "map_of ?table (str_lower method) = Some co" "i < 5"
    "c_session (co_call co) = length (sessions w) + i"
    "c_timeout (co_call co) = request_timeout self"
    by (elim exE conjE)
  have built: "dispatch_table self url ?p ?d ?j ?rest w = (Inr ?table, with_five self w)"
    by (rule dispatch_table_ok [OF kw_rest_disjoint [OF assms(2)]])
  have st: "s_timeout (sessions (with_five self w) ! c_session (co_call co)) = u_time_out self"
    using co(2) by (simp add: co(3) with_five_def fresh_session_def u_time_out_def)
  have run: "\<forall>w2. \<exists>c. calls (snd (gather srv (Some co) w2)) = calls w2 @ [c] \<and>
                      c_session c = c_session (co_call co) \<and> c_timeout c = u_time_out self"
    by (simp add: gather_Some_calls co(4) u_time_out_def)
  show "\<exists>table w1 co.
          dispatch_table self url ?p ?d ?j ?rest w = (Inr table, w1) \<and>
          map_of table (str_lower method) = Some co \<and>
          s_timeout (sessions w1 ! c_session (co_call co)) = u_time_out self \<and>
          (\<forall>w2. \<exists>c. calls (snd (gather srv (Some co) w2)) = calls w2 @ [c] \<and>
                     c_session c = c_session (co_call co) \<and> c_timeout c = u_time_out self)"
    using built co(1) st run by (intro exI [of _ ?table] exI [of _ "with_five self w"] exI [of _ co] conjI)
qed

text \<open>
  The theorem at a POST on a client whose timeout was set to 5 seconds.
\<close>

theorem C8_timeout_setter_witness:
  "str_lower ''Post'' \<in> set supported_methods \<and> passthrough_ok [] \<and>
   u_time_out (u_time_out_set 5 Request_init) = ClientTimeout 5 \<and>
   (\<exists>c. calls (snd (request server_a1 (u_time_out_set 5 Request_init) ''Post'' example_url [] world0)) = calls world0 @ [c] \<and>
         c_timeout c = ClientTimeout 5 \<and>
         s_timeout (sessions (snd (request server_a1 (u_time_out_set 5 Request_init) ''Post'' example_url [] world0)) ! c_session c)
           = ClientTimeout 5) \<and>
   (\<exists>table w1 co.
         dispatch_table Request_init example_url (kw_get ''params'' []) (kw_get ''data'' []) (kw_get ''json'' [])
           (kw_rest [''params'', ''data'', ''json''] []) world0 = (Inr table, w1) \<and>
         map_of table (str_lower ''Post'') = Some co \<and>
         s_timeout (sessions w1 ! c_session (co_call co)) = u_time_out Request_init \<and>
         (\<forall>w2. \<exists>c. calls (snd (gather server_a1 (Some co) w2)) = calls w2 @ [c] \<and>
                    c_session c = c_session (co_call co) \<and>
                    c_timeout c = u_time_out Request_init))"
proof -
  have m: "str_lower ''Post'' \<in> set supported_methods" by code_simp
  have k: "passthrough_ok []" by (simp add: passthrough_ok_def)
  show ?thesis
    by (rule conjI [OF m conjI [OF k
          C8_timeout_setter [OF m k, of 5 Request_init server_a1 example_url world0]]])
qed

section \<open>Sessions\<close>



section \<open>Bodies\<close>

text \<open>
  Claim C10. The \<open>json\<close> argument reaches the network operation only for POST. For
  PUT and PATCH the operation carries the \<open>data\<close> argument and no \<open>json\<close>, neither as
  the keyword nor among the pass-through options: a JSON payload given with those verbs
  is dropped.
\<close>

theorem C10_json_forwarded_only_for_post:
  assumes "str_lower method \<in> set supported_methods" and "passthrough_ok kw"
  shows "\<exists>c. calls (snd (request srv self method url kw w)) = calls w @ [c] \<and>
             (str_lower method = ''post'' \<longrightarrow> c_json c = Some (kw_get ''json'' kw)) \<and>
             (str_lower method \<noteq> ''post'' \<longrightarrow> c_json c = None) \<and>
             (str_lower method \<in> {''put'', ''patch''} \<longrightarrow>
                c_data c = Some (kw_get ''data'' kw) \<and> c_json c = None) \<and>
             ''json'' \<notin> fst ` set (c_kwargs c)"
proof -
  obtain co and i :: nat where co:
    "request srv self method url kw w = gather srv (Some co) (with_five self w)"
    "c_kwargs (co_call co) = kw_rest [''params'', ''data'', ''json''] kw"
    "c_json (co_call co) = (if str_lower method = ''post'' then Some (kw_get ''json'' kw) else None)"
    "c_data (co_call co) = (if str_lower method \<in> {''post'', ''put'', ''patch''} then Some (kw_get ''data'' kw) else None)"
    using assms by (rule request_supported)
  have sent: "calls (snd (request srv self method url kw w)) = calls w @ [co_call co]"
    by (simp only: co(1) gather_Some_calls with_five_calls)
  show ?thesis
  proof (intro exI [of _ "co_call co"] conjI)
    show "calls (snd (request srv self method url kw w)) = calls w @ [co_call co]" by (rule sent)
    show "str_lower method = ''post'' \<longrightarrow> c_json (co_call co) = Some (kw_get ''json'' kw)"
      by (simp add: co(3))
    show "str_lower method \<noteq> ''post'' \<longrightarrow> c_json (co_call co) = None"
      by (simp add: co(3))
    show "str_lower method \<in> {''put'', ''patch''} \<longrightarrow>
            c_data (co_call co) = Some (kw_get ''data'' kw) \<and> c_json (co_call co) = None"
      by (auto simp: co(3) co(4))
    show "''json'' \<notin> fst ` set (c_kwargs (co_call co))"
      by (simp only: co(2) kw_rest_no_json not_False_eq_True)
  qed
qed

text \<open>
  The theorem at a PUT given both a \<open>json\<close> and a \<open>data\<close> argument.
\<close>

theorem C10_json_forwarded_only_for_post_witness:
  "str_lower ''PUT'' \<in> set supported_methods \<and>
   passthrough_ok [(''json'', PDict [(''k'', PInt 1)]), (''data'', PStr ''d'')] \<and>
   (\<exists>c. calls (snd (request server_a1 Request_init ''PUT'' example_url
               [(''json'', PDict [(''k'', PInt 1)]), (''data'', PStr ''d'')] world0)) = calls world0 @ [c] \<and>
         c_json c = None \<and> c_data c = Some (PStr ''d'') \<and> ''json'' \<notin> fst ` set (c_kwargs c))"
proof -
  let ?kw = "[(''json'', PDict [(''k'', PInt 1)]), (''data'', PStr ''d'')]"
  have m: "str_lower ''PUT'' \<in> set supported_methods" by code_simp
  have k: "passthrough_ok ?kw" by code_simp
  have n: "str_lower ''PUT'' \<noteq> ''post''" by code_simp
  have p: "str_lower ''PUT'' \<in> {''put'', ''patch''}" by code_simp
  have d: "kw_get ''data'' ?kw = PStr ''d''" by code_simp
  from C10_json_forwarded_only_for_post [OF m k, of server_a1 Request_init example_url world0]
  obtain c where c:
    "calls (snd (request server_a1 Request_init ''PUT'' example_url ?kw world0)) = calls world0 @ [c]"
    "str_lower ''PUT'' \<noteq> ''post'' \<longrightarrow> c_json c = None"
    "str_lower ''PUT'' \<in> {''put'', ''patch''} \<longrightarrow>
       c_data c = Some (kw_get ''data'' ?kw) \<and> c_json c = None"
    "''json'' \<notin> fst ` set (c_kwargs c)"
    by (elim exE conjE)
  have j: "c_json c = None" by (rule mp [OF c(2) n])
  have "c_data c = Some (kw_get ''data'' ?kw)" using mp [OF c(3) p] by (rule conjunct1)
  then have dd: "c_data c = Some (PStr ''d'')" by (simp only: d)
  show ?thesis by (intro exI [of _ c] conjI m k c(1) j dd c(4))
qed

end
